theory Spec2Isabelle
  imports Complex_Main "HOL-Library.Word"
begin

unbundle bit_operations_syntax

section \<open>Values, errors and drawing commands\<close>

text \<open>
  A shallow embedding of \<^verbatim>\<open>rendering.py\<close>.

  Python numbers are dynamically typed; \<open>pynum\<close> keeps the distinction the source tests
  with \<^verbatim>\<open>isinstance(width, int)\<close> and that the bit operators of
  \<^verbatim>\<open>generate_colorref\<close> depend on. A float is represented by the rational number it
  denotes, so \<open>PyFloat\<close> covers the finite floats and arithmetic on them is exact
  (no rounding of \<^verbatim>\<open>/\<close> and \<^verbatim>\<open>*\<close>). Coordinates are only compared, added and
  multiplied in the source, so they are kept as rationals. Non-numeric objects are outside
  the model.
\<close>

datatype pynum = PyInt int | PyFloat rat

fun num_val :: "pynum \<Rightarrow> rat" where
  "num_val (PyInt n) = of_int n"
| "num_val (PyFloat q) = q"

fun isinstance_int :: "pynum \<Rightarrow> bool" where
  "isinstance_int (PyInt n) = True"
| "isinstance_int (PyFloat q) = False"

datatype error = ValueError | TypeError | ZeroDivisionError

text \<open>Sequencing: an exception raised by the first computation ends the whole.\<close>

definition bind_err :: "error + 'a \<Rightarrow> ('a \<Rightarrow> error + 'b) \<Rightarrow> error + 'b" where
  "bind_err m f = (case m of Inl e \<Rightarrow> Inl e | Inr v \<Rightarrow> f v)"

text \<open>
  The two primitives of \<^verbatim>\<open>window_lib\<close> that the shapes call, with the arguments of the
  call: \<^verbatim>\<open>draw_pixel(hwnd, x, y, colorref)\<close> and
  \<^verbatim>\<open>fill_rect(hwnd, x, y, w, h, colorref)\<close>. A display operation returns the list of
  calls it makes, in order.
\<close>

datatype cmd =
    draw_pixel int rat rat "32 word"
  | fill_rect int rat rat rat rat "32 word"


record Window =
  window_title :: string
  window_hwnd :: int

section \<open>Color\<close>

record Color =
  color_r :: pynum
  color_g :: pynum
  color_b :: pynum
  color_a :: "pynum option"
  color_color :: "pynum list"
  color_colorref :: "32 word"

text \<open>
  \<^verbatim>\<open>ctypes.c_uint32((b << 16) | (g << 8) | r)\<close>: the shift and the bitwise or raise
  TypeError on a float operand; \<^verbatim>\<open>c_uint32\<close> keeps the low 32 bits.
\<close>

fun generate_colorref :: "pynum \<Rightarrow> pynum \<Rightarrow> pynum \<Rightarrow> error + 32 word" where
  "generate_colorref (PyInt r) (PyInt g) (PyInt b) =
     Inr (word_of_int ((push_bit 16 b OR push_bit 8 g) OR r))"
| "generate_colorref r g b = Inl TypeError"

definition out_of_range :: "pynum \<Rightarrow> bool" where
  "out_of_range v = (num_val v > 255 \<or> num_val v < 0)"

definition Color_init :: "pynum list \<Rightarrow> error + Color" where
  "Color_init color =
     (if length color \<noteq> 4 \<and> length color \<noteq> 3 then Inl ValueError
      else if out_of_range (color ! 0) \<or> out_of_range (color ! 1) \<or> out_of_range (color ! 2)
        then Inl ValueError
      else if length color = 4 \<and> out_of_range (color ! 3) then Inl ValueError
      else
        (case generate_colorref (color ! 0) (color ! 1) (color ! 2) of
           Inl e \<Rightarrow> Inl e
         | Inr ref \<Rightarrow>
             Inr \<lparr>color_r = color ! 0, color_g = color ! 1, color_b = color ! 2,
                  color_a = (if length color = 4 then Some (color ! 3) else None),
                  color_color = color, color_colorref = ref\<rparr>))"

text \<open>
  \<^verbatim>\<open>char.upper()\<close> on the ASCII letters; on every other character the model leaves the
  character as it is, which agrees with Python on membership in the sixteen hex digits
  (no other character has an upper case among them).
\<close>

definition char_upper :: "char \<Rightarrow> char" where
  "char_upper c =
     (let n = (of_char c :: nat) in if 97 \<le> n \<and> n \<le> 122 then char_of (n - 32) else c)"

definition hex_digits :: string where
  "hex_digits = ''0123456789ABCDEF''"

text \<open>
  \<^verbatim>\<open>int(s, 16)\<close> on a string of hex digits; any other string is a ValueError here
  (the prefixes, signs and underscores Python would also accept contain characters that
  \<^verbatim>\<open>from_hex_code\<close> has rejected before it converts).
\<close>

definition digit_value :: "char \<Rightarrow> int option" where
  "digit_value c =
     (let n = (of_char c :: int) in
      if 48 \<le> n \<and> n \<le> 57 then Some (n - 48)
      else if 65 \<le> n \<and> n \<le> 70 then Some (n - 55)
      else if 97 \<le> n \<and> n \<le> 102 then Some (n - 87)
      else None)"

fun int16_acc :: "int \<Rightarrow> string \<Rightarrow> error + int" where
  "int16_acc acc [] = Inr acc"
| "int16_acc acc (c # cs) =
     (case digit_value c of
        None \<Rightarrow> Inl ValueError
      | Some d \<Rightarrow> int16_acc (16 * acc + d) cs)"

definition int16 :: "string \<Rightarrow> error + int" where
  "int16 s = (if s = [] then Inl ValueError else int16_acc 0 s)"

definition from_hex_code :: "string \<Rightarrow> error + Color" where
  "from_hex_code hex_code =
     (if length hex_code \<noteq> 8 \<and> length hex_code \<noteq> 6 then Inl ValueError
      else if list_ex (\<lambda>char. char_upper char \<notin> set hex_digits) hex_code then Inl ValueError
      else if length hex_code = 8 then
        bind_err (int16 (take 2 hex_code)) (\<lambda>r.
        bind_err (int16 (take 2 (drop 2 hex_code))) (\<lambda>g.
        bind_err (int16 (take 2 (drop 4 hex_code))) (\<lambda>b.
        bind_err (int16 (drop (length hex_code - 2) hex_code)) (\<lambda>a.
          Color_init [PyInt r, PyInt g, PyInt b, PyInt a]))))
      else
        bind_err (int16 (take 2 hex_code)) (\<lambda>r.
        bind_err (int16 (take 2 (drop 2 hex_code))) (\<lambda>g.
        bind_err (int16 (drop (length hex_code - 2) hex_code)) (\<lambda>b.
          Color_init [PyInt r, PyInt g, PyInt b]))))"

section \<open>Coordinate\<close>

record Coordinate =
  coord_x :: rat
  coord_y :: rat

definition Coordinate_init :: "rat \<Rightarrow> rat \<Rightarrow> error + Coordinate" where
  "Coordinate_init x y =
     (if x < 0 \<or> y < 0 then Inl ValueError else Inr \<lparr>coord_x = x, coord_y = y\<rparr>)"

definition Window_draw :: "Window \<Rightarrow> Coordinate \<Rightarrow> Color \<Rightarrow> cmd" where
  "Window_draw w coord color =
     draw_pixel (window_hwnd w) (coord_x coord) (coord_y coord) (color_colorref color)"

section \<open>Line\<close>

record Line =
  line_master :: Window
  line_start :: Coordinate
  line_end :: Coordinate
  line_color :: Color
  line_width :: int
  line_radius :: int
  line_slope :: "rat option"

text \<open>
  The test \<^verbatim>\<open>v <= 0 or not isinstance(v, int)\<close> of the Line and Rect constructors:
  ValueError where it holds, the integer otherwise. For a float one of the two
  disjuncts holds whatever its value.
\<close>

fun positive_int :: "pynum \<Rightarrow> error + int" where
  "positive_int (PyInt n) = (if n \<le> 0 then Inl ValueError else Inr n)"
| "positive_int (PyFloat q) = Inl ValueError"

text \<open>Python's \<^verbatim>\<open>/\<close> on numbers: a zero divisor raises ZeroDivisionError.\<close>

definition py_truediv :: "rat \<Rightarrow> rat \<Rightarrow> error + rat" where
  "py_truediv a b = (if b = 0 then Inl ZeroDivisionError else Inr (a / b))"

text \<open>
  The constructor computes the slope under \<^verbatim>\<open>try\<close> and stores \<open>None\<close> in the
  \<^verbatim>\<open>except ZeroDivisionError\<close> branch; any other exception would pass through.
\<close>

definition Line_init ::
  "Window \<Rightarrow> Coordinate \<Rightarrow> Coordinate \<Rightarrow> Color \<Rightarrow> pynum \<Rightarrow> bool \<Rightarrow> error + Line" where
  "Line_init master start end' color width antialias =
     bind_err (positive_int width) (\<lambda>w.
       let l = \<lparr>line_master = master, line_start = start, line_end = end',
                 line_color = color, line_width = w, line_radius = w div 2,
                 line_slope = None\<rparr>
       in case py_truediv (coord_y end' - coord_y start) (coord_x end' - coord_x start) of
            Inr slope \<Rightarrow> Inr (l\<lparr>line_slope := Some slope\<rparr>)
          | Inl e \<Rightarrow> if e = ZeroDivisionError then Inr (l\<lparr>line_slope := None\<rparr>) else Inl e)"

text \<open>Python's \<^verbatim>\<open>round\<close> of a float: to the nearest integer, a tie to the even one.\<close>

definition py_round :: "rat \<Rightarrow> int" where
  "py_round q =
     (let f = \<lfloor>q\<rfloor>; d = q - of_int f in
      if d < 1 / 2 then f
      else if d > 1 / 2 then f + 1
      else if even f then f else f + 1)"

text \<open>
  The \<^verbatim>\<open>for offset in range(-radius, radius + 1)\<close> loop of \<^verbatim>\<open>display\<close> at one
  value of \<open>x\<close>: it assigns \<open>y\<close> and appends one Coordinate per offset; the Coordinate
  constructor may raise. \<open>slope\<close> is the line's slope, known to be defined.
\<close>

fun band ::
  "Line \<Rightarrow> rat \<Rightarrow> rat \<Rightarrow> int list \<Rightarrow> rat \<times> Coordinate list \<Rightarrow> error + (rat \<times> Coordinate list)"
where
  "band l slope x [] (y, coords) = Inr (y, coords)"
| "band l slope x (offset # offsets) (y, coords) =
     (let y' = of_int (py_round (slope * (x - coord_x (line_start l)) + coord_y (line_start l)))
      in case (if slope > 1 then Coordinate_init (x + of_int offset) y'
               else Coordinate_init x (y' + of_int offset)) of
           Inl e \<Rightarrow> Inl e
         | Inr c \<Rightarrow> band l slope x offsets (y', coords @ [c]))"

text \<open>
  The \<^verbatim>\<open>while True\<close> loop. \<open>dx\<close>, \<open>dy\<close>, \<open>step_x\<close>, \<open>step_y\<close> and
  \<open>two_error\<close> are assigned once before the loop; \<open>x\<close>, \<open>y\<close>, \<open>error\<close> and
  \<open>coords\<close> change. The result is \<open>None\<close> when the loop never leaves.
\<close>

partial_function (option) stepper ::
  "Line \<Rightarrow> rat \<Rightarrow> rat \<Rightarrow> rat \<Rightarrow> rat \<Rightarrow> rat \<Rightarrow> rat \<Rightarrow> rat \<Rightarrow> rat \<Rightarrow> rat \<Rightarrow> Coordinate list
     \<Rightarrow> (error + Coordinate list) option"
where
  "stepper l slope dx dy step_x step_y two_error x y error coords =
     (case band l slope x [- line_radius l..line_radius l] (y, coords) of
        Inl e \<Rightarrow> Some (Inl e)
      | Inr (y1, coords1) \<Rightarrow>
          if x = coord_x (line_end l) \<and> y1 = coord_y (line_end l) then Some (Inr coords1)
          else
            (let error2 = (if two_error > - dy then error - dy else error);
                 x2 = (if two_error > - dy then x + step_x else x);
                 error3 = (if two_error < dx then error2 + dx else error2);
                 y3 = (if two_error < dx then y1 + step_y else y1)
             in stepper l slope dx dy step_x step_y two_error x2 y3 error3 coords1))"

definition Line_display :: "Line \<Rightarrow> (error + cmd list) option" where
  "Line_display l =
     (case line_slope l of
        Some slope \<Rightarrow>
          if slope \<noteq> 0 then
            (let dx = \<bar>coord_x (line_start l) - coord_x (line_end l)\<bar>;
                 dy = \<bar>coord_y (line_start l) - coord_y (line_end l)\<bar>;
                 step_x = (if coord_x (line_start l) < coord_x (line_end l) then 1 else - 1);
                 step_y = (if coord_y (line_start l) < coord_y (line_end l) then 1 else - 1);
                 error = dx - dy;
                 two_error = 2 * error
             in case stepper l slope dx dy step_x step_y two_error
                       (coord_x (line_start l)) (coord_y (line_start l)) error [] of
                  None \<Rightarrow> None
                | Some (Inl e) \<Rightarrow> Some (Inl e)
                | Some (Inr coords) \<Rightarrow>
                    Some (Inr (map (\<lambda>coord. Window_draw (line_master l) coord (line_color l)) coords)))
          else
            Some (Inr [fill_rect (window_hwnd (line_master l))
                         (coord_x (line_start l)) (coord_y (line_start l))
                         (coord_x (line_end l) - coord_x (line_start l)) (of_int (line_width l))
                         (color_colorref (line_color l))])
      | None \<Rightarrow>
          Some (Inr [fill_rect (window_hwnd (line_master l))
                       (coord_x (line_start l)) (coord_y (line_start l))
                       (of_int (line_width l)) (coord_y (line_end l) - coord_y (line_start l))
                       (color_colorref (line_color l))]))"

section \<open>Rect\<close>

record Rect =
  rect_master :: Window
  rect_width :: int
  rect_height :: int
  rect_border_color :: Color
  rect_borderwidth :: int
  rect_antialiasing :: bool
  rect_fill :: bool
  rect_fill_color :: Color
  rect_top_left :: Coordinate
  rect_top_right :: Coordinate
  rect_bottom_left :: Coordinate
  rect_bottom_right :: Coordinate
  rect_top_edge :: Line
  rect_bottom_edge :: Line
  rect_left_edge :: Line
  rect_right_edge :: Line

definition Rect_init ::
  "Window \<Rightarrow> Coordinate \<Rightarrow> pynum \<Rightarrow> pynum \<Rightarrow> Color \<Rightarrow> pynum \<Rightarrow> bool \<Rightarrow> bool \<Rightarrow> Color
     \<Rightarrow> error + Rect" where
  "Rect_init master top_left_corner width height border_color borderwidth antialiasing fill
     fill_color =
     bind_err (positive_int width) (\<lambda>w.
     bind_err (positive_int height) (\<lambda>h.
     bind_err (positive_int borderwidth) (\<lambda>bw.
     bind_err (Coordinate_init (coord_x top_left_corner + of_int w) (coord_y top_left_corner))
       (\<lambda>top_right.
     bind_err (Coordinate_init (coord_x top_left_corner) (coord_y top_left_corner + of_int h))
       (\<lambda>bottom_left.
     bind_err (Coordinate_init (coord_x top_left_corner + of_int w)
                 (coord_y top_left_corner + of_int h))
       (\<lambda>bottom_right.
     bind_err (Line_init master top_left_corner top_right border_color (PyInt bw) antialiasing)
       (\<lambda>top_edge.
     bind_err (Line_init master bottom_left bottom_right border_color (PyInt bw) antialiasing)
       (\<lambda>bottom_edge.
     bind_err (Line_init master top_left_corner bottom_left border_color (PyInt bw) antialiasing)
       (\<lambda>left_edge.
     bind_err (Line_init master top_right bottom_right border_color (PyInt bw) antialiasing)
       (\<lambda>right_edge.
       Inr \<lparr>rect_master = master, rect_width = w, rect_height = h,
            rect_border_color = border_color, rect_borderwidth = bw,
            rect_antialiasing = antialiasing, rect_fill = fill, rect_fill_color = fill_color,
            rect_top_left = top_left_corner, rect_top_right = top_right,
            rect_bottom_left = bottom_left, rect_bottom_right = bottom_right,
            rect_top_edge = top_edge, rect_bottom_edge = bottom_edge,
            rect_left_edge = left_edge, rect_right_edge = right_edge\<rparr>))))))))))"

text \<open>
  One display after another: the second runs only when the first has returned, and an
  exception of either ends the whole. The calls made are those of both, in order.
\<close>

definition then_display ::
  "(error + cmd list) option \<Rightarrow> (error + cmd list) option \<Rightarrow> (error + cmd list) option" where
  "then_display first second =
     (case first of
        None \<Rightarrow> None
      | Some (Inl e) \<Rightarrow> Some (Inl e)
      | Some (Inr cs) \<Rightarrow>
          (case second of
             None \<Rightarrow> None
           | Some (Inl e) \<Rightarrow> Some (Inl e)
           | Some (Inr ds) \<Rightarrow> Some (Inr (cs @ ds))))"

definition corner_patch :: "Rect \<Rightarrow> cmd" where
  "corner_patch r =
     fill_rect (window_hwnd (rect_master r))
       (coord_x (rect_bottom_right r)) (coord_y (rect_bottom_right r))
       (of_int (rect_borderwidth r)) (of_int (rect_borderwidth r))
       (color_colorref (rect_border_color r))"

definition interior_fill :: "Rect \<Rightarrow> cmd" where
  "interior_fill r =
     fill_rect (window_hwnd (rect_master r))
       (coord_x (rect_top_left r) + of_int (rect_borderwidth r))
       (coord_y (rect_top_left r) + of_int (rect_borderwidth r))
       (of_int (rect_width r - rect_borderwidth r))
       (of_int (rect_height r - rect_borderwidth r))
       (color_colorref (rect_fill_color r))"

definition Rect_display :: "Rect \<Rightarrow> (error + cmd list) option" where
  "Rect_display r =
     then_display (Line_display (rect_top_edge r))
       (then_display (Line_display (rect_bottom_edge r))
          (then_display (Line_display (rect_left_edge r))
             (then_display (Line_display (rect_right_edge r))
                (Some (Inr (corner_patch r # (if rect_fill r then [interior_fill r] else [])))))))"

definition change_fill :: "Rect \<Rightarrow> Rect" where
  "change_fill r = r\<lparr>rect_fill := \<not> rect_fill r\<rparr>"

section \<open>Notions used to state the properties\<close>

text \<open>An integer object with a value in \<open>[0, 255]\<close>.\<close>

definition in_range_int :: "pynum \<Rightarrow> bool" where
  "in_range_int v = (case v of PyInt n \<Rightarrow> 0 \<le> n \<and> n \<le> 255 | PyFloat q \<Rightarrow> False)"

text \<open>The characters \<open>[0-9A-Fa-f]\<close>.\<close>

definition hex_char :: "char \<Rightarrow> bool" where
  "hex_char c = (c \<in> set ''0123456789ABCDEFabcdef'')"

text \<open>An integer object with a strictly positive value.\<close>

definition positive_integer :: "pynum \<Rightarrow> bool" where
  "positive_integer v = (case v of PyInt n \<Rightarrow> 0 < n | PyFloat q \<Rightarrow> False)"

text \<open>
  The point that \<^verbatim>\<open>display\<close> appends for one offset at position \<open>x\<close>: on the
  line's rounded \<open>y\<close>, moved by the offset along \<open>x\<close> when the slope exceeds 1 and
  along \<open>y\<close> otherwise.
\<close>

definition band_point :: "Line \<Rightarrow> rat \<Rightarrow> rat \<Rightarrow> int \<Rightarrow> Coordinate" where
  "band_point l slope x offset =
     (let y = of_int (py_round (slope * (x - coord_x (line_start l)) + coord_y (line_start l)))
      in if slope > 1 then \<lparr>coord_x = x + of_int offset, coord_y = y\<rparr>
         else \<lparr>coord_x = x, coord_y = y + of_int offset\<rparr>)"

text \<open>
  Values for concrete instances: a window handle, the default colour \<^verbatim>\<open>Color((0, 0, 0))\<close>
  of the constructors, and \<^verbatim>\<open>Color((0, 0, 255))\<close>.
\<close>

definition window1 :: Window where
  "window1 = \<lparr>window_title = ''demo'', window_hwnd = 1\<rparr>"

definition black :: Color where
  "black = \<lparr>color_r = PyInt 0, color_g = PyInt 0, color_b = PyInt 0, color_a = None,
             color_color = [PyInt 0, PyInt 0, PyInt 0], color_colorref = 0\<rparr>"

definition blue :: Color where
  "blue = \<lparr>color_r = PyInt 0, color_g = PyInt 0, color_b = PyInt 255, color_a = None,
            color_color = [PyInt 0, PyInt 0, PyInt 255], color_colorref = 16711680\<rparr>"

section \<open>Color: packing and validation\<close>

lemma colorref_fits:
  assumes "0 \<le> r" "r \<le> 255" "0 \<le> g" "g \<le> 255" "0 \<le> b" "b \<le> (255::int)"
  shows "0 \<le> (push_bit 16 b OR push_bit 8 g) OR r"
    and "(push_bit 16 b OR push_bit 8 g) OR r < 2 ^ 32"
proof -
  have b: "0 \<le> push_bit 16 b" "push_bit 16 b < 2 ^ 32"
    using assms by (simp_all add: push_bit_eq_mult)
  have g: "0 \<le> push_bit 8 g" "push_bit 8 g < 2 ^ 32"
    using assms by (simp_all add: push_bit_eq_mult)
  have r: "r < 2 ^ 32" using assms by simp
  show "0 \<le> (push_bit 16 b OR push_bit 8 g) OR r"
    using assms b g by simp
  have bg: "push_bit 16 b OR push_bit 8 g < 2 ^ 32"
    by (rule OR_upper[OF b(1) b(2) g(2)])
  have bg0: "0 \<le> push_bit 16 b OR push_bit 8 g"
    by (rule OR_lower[OF b(1) g(1)])
  show "(push_bit 16 b OR push_bit 8 g) OR r < 2 ^ 32"
    by (rule OR_upper[OF bg0 bg r])
qed

lemma uint_colorref:
  assumes "0 \<le> r" "r \<le> 255" "0 \<le> g" "g \<le> 255" "0 \<le> b" "b \<le> (255::int)"
  shows "uint (word_of_int ((push_bit 16 b OR push_bit 8 g) OR r) :: 32 word)
           = (push_bit 16 b OR push_bit 8 g) OR r"
  using colorref_fits[OF assms] by (simp add: uint_word_of_int)

text \<open>
  Claim C5. For integers \<open>r\<close>, \<open>g\<close>, \<open>b\<close> in \<open>[0, 255]\<close> the Color built from
  \<open>(r, g, b)\<close> exists and its packed value, read as an unsigned number, is
  \<open>(b << 16) | (g << 8) | r\<close>; the Color built from \<open>(r, g, b, a)\<close> with any alpha
  in \<open>[0, 255]\<close> exists too and has the same packed value.
\<close>

theorem Color_packed:
  assumes "0 \<le> r" "r \<le> 255" "0 \<le> g" "g \<le> 255" "0 \<le> b" "b \<le> 255"
  shows "\<exists>c. Color_init [PyInt r, PyInt g, PyInt b] = Inr c
           \<and> uint (color_colorref c) = (push_bit 16 b OR push_bit 8 g) OR r
           \<and> (\<forall>a. 0 \<le> num_val a \<and> num_val a \<le> 255 \<longrightarrow>
                 (\<exists>c'. Color_init [PyInt r, PyInt g, PyInt b, a] = Inr c'
                    \<and> color_colorref c' = color_colorref c))"
  using assms uint_colorref[OF assms]
  by (auto simp add: Color_init_def out_of_range_def)

theorem Color_packed_witness:
  "\<exists>c. Color_init [PyInt 18, PyInt 52, PyInt 86] = Inr c
      \<and> uint (color_colorref c) = 5649426
      \<and> (\<exists>c'. Color_init [PyInt 18, PyInt 52, PyInt 86, PyInt 128] = Inr c'
                    \<and> color_colorref c' = color_colorref c)"
proof -
  have "(0::int) \<le> 18" "(18::int) \<le> 255" "(0::int) \<le> 52" "(52::int) \<le> 255"
    "(0::int) \<le> 86" "(86::int) \<le> 255" by simp_all
  from Color_packed[OF this] obtain c where
    c: "Color_init [PyInt 18, PyInt 52, PyInt 86] = Inr c"
       "uint (color_colorref c) = (push_bit 16 86 OR push_bit 8 52) OR 18"
       "\<forall>a. 0 \<le> num_val a \<and> num_val a \<le> 255 \<longrightarrow>
                 (\<exists>c'. Color_init [PyInt 18, PyInt 52, PyInt 86, a] = Inr c'
                    \<and> color_colorref c' = color_colorref c)"
    by blast
  have "(push_bit 16 86 OR push_bit 8 52) OR 18 = (5649426::int)" by simp
  moreover have "\<exists>c'. Color_init [PyInt 18, PyInt 52, PyInt 86, PyInt 128] = Inr c'
                    \<and> color_colorref c' = color_colorref c"
    using c(3)[rule_format, of "PyInt 128"] by simp
  ultimately show ?thesis using c(1,2) by auto
qed

lemma generate_colorref_Inr:
  "(\<exists>w. generate_colorref r g b = Inr w)
     \<longleftrightarrow> isinstance_int r \<and> isinstance_int g \<and> isinstance_int b"
  by (cases r; cases g; cases b) simp_all

text \<open>
  Claim C6, as stated, fails: the constructor compares alpha with 0 and 255 and never
  uses it in a bit operation, so a float alpha inside the range is accepted.
\<close>

theorem Color_init_float_alpha_counterexample:
  "Color_init [PyInt 0, PyInt 0, PyInt 0, PyFloat (1 / 2)] =
     Inr \<lparr>color_r = PyInt 0, color_g = PyInt 0, color_b = PyInt 0,
          color_a = Some (PyFloat (1 / 2)),
          color_color = [PyInt 0, PyInt 0, PyInt 0, PyFloat (1 / 2)], color_colorref = 0\<rparr>"
  by (simp add: Color_init_def out_of_range_def)

text \<open>
  Claim C6, amended. Construction succeeds exactly when the sequence has 3 or 4 values,
  \<open>r\<close>, \<open>g\<close> and \<open>b\<close> are integers in \<open>[0, 255]\<close> and alpha, when present, is a
  number in \<open>[0, 255]\<close>. So it fails for every sequence with a non-integer \<open>r\<close>,
  \<open>g\<close> or \<open>b\<close>, also inside the range.
\<close>

theorem Color_init_succeeds_iff:
  "(\<exists>c. Color_init color = Inr c) \<longleftrightarrow>
     (length color = 3 \<or> length color = 4)
     \<and> in_range_int (color ! 0) \<and> in_range_int (color ! 1) \<and> in_range_int (color ! 2)
     \<and> (length color = 4 \<longrightarrow> 0 \<le> num_val (color ! 3) \<and> num_val (color ! 3) \<le> 255)"
proof -
  have ir: "in_range_int v \<longleftrightarrow> isinstance_int v \<and> \<not> out_of_range v" for v
    by (cases v) (auto simp add: in_range_int_def out_of_range_def)
  show ?thesis
    using generate_colorref_Inr[of "color ! 0" "color ! 1" "color ! 2"]
    by (auto simp add: Color_init_def ir out_of_range_def split: sum.splits)
qed

theorem Color_init_succeeds_iff_witness:
  "(\<exists>c. Color_init [PyInt 1, PyInt 2, PyInt 3, PyFloat (1 / 2)] = Inr c)
     \<and> (\<nexists>c. Color_init [PyInt 1, PyFloat (5 / 2), PyInt 3] = Inr c)
     \<and> (\<nexists>c. Color_init [PyInt 1, PyInt 2, PyInt 3, PyInt 256] = Inr c)"
  using Color_init_succeeds_iff[of "[PyInt 1, PyInt 2, PyInt 3, PyFloat (1 / 2)]"]
    Color_init_succeeds_iff[of "[PyInt 1, PyFloat (5 / 2), PyInt 3]"]
    Color_init_succeeds_iff[of "[PyInt 1, PyInt 2, PyInt 3, PyInt 256]"]
  by (simp add: in_range_int_def)

section \<open>Color: the hex constructor\<close>

lemma char_upper_hex: "char_upper c \<in> set hex_digits \<longleftrightarrow> hex_char c"
proof (cases c)
  case (Char b0 b1 b2 b3 b4 b5 b6 b7)
  then show ?thesis
    by (cases b0; cases b1; cases b2; cases b3; cases b4; cases b5; cases b6; cases b7;
        simp add: char_upper_def hex_digits_def hex_char_def char_of_def bit_0)
qed

lemma digit_value_hex: "hex_char c \<Longrightarrow> \<exists>d. digit_value c = Some d \<and> 0 \<le> d \<and> d \<le> 15"
  unfolding hex_char_def by (auto simp add: digit_value_def)

lemma int16_pair:
  assumes "hex_char h" "hex_char l"
  shows "\<exists>v. int16 [h, l] = Inr v \<and> 0 \<le> v \<and> v \<le> 255"
proof -
  obtain dh dl where "digit_value h = Some dh" "0 \<le> dh" "dh \<le> 15"
    "digit_value l = Some dl" "0 \<le> dl" "dl \<le> 15"
    using digit_value_hex[OF assms(1)] digit_value_hex[OF assms(2)] by blast
  then show ?thesis by (simp add: int16_def)
qed

lemma length_6_elems: "length s = 6 \<Longrightarrow> s = [s ! 0, s ! 1, s ! 2, s ! 3, s ! 4, s ! 5]"
  by (auto simp add: numeral_eq_Suc length_Suc_conv)

lemma length_8_elems:
  "length s = 8 \<Longrightarrow> s = [s ! 0, s ! 1, s ! 2, s ! 3, s ! 4, s ! 5, s ! 6, s ! 7]"
  by (auto simp add: numeral_eq_Suc length_Suc_conv)

lemma list_ex_not_hex:
  "list_ex (\<lambda>char. char_upper char \<notin> set hex_digits) s \<longleftrightarrow> (\<exists>c\<in>set s. \<not> hex_char c)"
  by (simp add: list_ex_iff char_upper_hex)

lemma from_hex_code_invalid:
  assumes "(length s \<noteq> 6 \<and> length s \<noteq> 8) \<or> (\<exists>c\<in>set s. \<not> hex_char c)"
  shows "from_hex_code s = Inl ValueError"
  using assms unfolding from_hex_code_def list_ex_not_hex by auto

lemma Color_init_rgb:
  assumes "0 \<le> r" "r \<le> 255" "0 \<le> g" "g \<le> 255" "0 \<le> b" "b \<le> 255"
  shows "Color_init [PyInt r, PyInt g, PyInt b] =
           Inr \<lparr>color_r = PyInt r, color_g = PyInt g, color_b = PyInt b, color_a = None,
                color_color = [PyInt r, PyInt g, PyInt b],
                color_colorref = word_of_int ((push_bit 16 b OR push_bit 8 g) OR r)\<rparr>"
  using assms by (simp add: Color_init_def out_of_range_def)

lemma Color_init_rgba:
  assumes "0 \<le> r" "r \<le> 255" "0 \<le> g" "g \<le> 255" "0 \<le> b" "b \<le> 255" "0 \<le> a" "a \<le> 255"
  shows "Color_init [PyInt r, PyInt g, PyInt b, PyInt a] =
           Inr \<lparr>color_r = PyInt r, color_g = PyInt g, color_b = PyInt b,
                color_a = Some (PyInt a),
                color_color = [PyInt r, PyInt g, PyInt b, PyInt a],
                color_colorref = word_of_int ((push_bit 16 b OR push_bit 8 g) OR r)\<rparr>"
  using assms by (simp add: Color_init_def out_of_range_def)

lemma from_hex_code_6:
  assumes len: "length s = 6" and hex: "\<forall>c\<in>set s. hex_char c"
  shows "\<exists>c r g b. from_hex_code s = Inr c
           \<and> int16 [s ! 0, s ! 1] = Inr r \<and> int16 [s ! 2, s ! 3] = Inr g
           \<and> int16 [s ! 4, s ! 5] = Inr b
           \<and> color_r c = PyInt r \<and> color_g c = PyInt g \<and> color_b c = PyInt b
           \<and> color_a c = None
           \<and> uint (color_colorref c) = (push_bit 16 b OR push_bit 8 g) OR r"
proof -
  have s: "s = [s ! 0, s ! 1, s ! 2, s ! 3, s ! 4, s ! 5]" by (rule length_6_elems[OF len])
  have h: "hex_char (s ! i)" if "i < 6" for i
    using hex len that by simp
  obtain r where r: "int16 [s ! 0, s ! 1] = Inr r" "0 \<le> r" "r \<le> 255"
    using int16_pair[OF h[of 0] h[of 1]] by auto
  obtain g where g: "int16 [s ! 2, s ! 3] = Inr g" "0 \<le> g" "g \<le> 255"
    using int16_pair[OF h[of 2] h[of 3]] by auto
  obtain b where b: "int16 [s ! 4, s ! 5] = Inr b" "0 \<le> b" "b \<le> 255"
    using int16_pair[OF h[of 4] h[of 5]] by auto
  have slices: "take 2 s = [s ! 0, s ! 1]" "take 2 (drop 2 s) = [s ! 2, s ! 3]"
    "drop (length s - 2) s = [s ! 4, s ! 5]"
    by (subst (1) s, simp add: len)+
  have nohex: "\<not> list_ex (\<lambda>char. char_upper char \<notin> set hex_digits) s"
    using hex by (simp add: list_ex_not_hex)
  have "from_hex_code s = Color_init [PyInt r, PyInt g, PyInt b]"
    unfolding from_hex_code_def slices r g b bind_err_def using nohex len
    by simp
  then show ?thesis
    using Color_init_rgb[OF r(2,3) g(2,3) b(2,3)] uint_colorref[OF r(2,3) g(2,3) b(2,3)] r g b
    by simp
qed

lemma from_hex_code_8:
  assumes len: "length s = 8" and hex: "\<forall>c\<in>set s. hex_char c"
  shows "\<exists>c r g b a. from_hex_code s = Inr c
           \<and> int16 [s ! 0, s ! 1] = Inr r \<and> int16 [s ! 2, s ! 3] = Inr g
           \<and> int16 [s ! 4, s ! 5] = Inr b \<and> int16 [s ! 6, s ! 7] = Inr a
           \<and> color_r c = PyInt r \<and> color_g c = PyInt g \<and> color_b c = PyInt b
           \<and> color_a c = Some (PyInt a)
           \<and> uint (color_colorref c) = (push_bit 16 b OR push_bit 8 g) OR r"
proof -
  have s: "s = [s ! 0, s ! 1, s ! 2, s ! 3, s ! 4, s ! 5, s ! 6, s ! 7]"
    by (rule length_8_elems[OF len])
  have h: "hex_char (s ! i)" if "i < 8" for i
    using hex len that by simp
  obtain r where r: "int16 [s ! 0, s ! 1] = Inr r" "0 \<le> r" "r \<le> 255"
    using int16_pair[OF h[of 0] h[of 1]] by auto
  obtain g where g: "int16 [s ! 2, s ! 3] = Inr g" "0 \<le> g" "g \<le> 255"
    using int16_pair[OF h[of 2] h[of 3]] by auto
  obtain b where b: "int16 [s ! 4, s ! 5] = Inr b" "0 \<le> b" "b \<le> 255"
    using int16_pair[OF h[of 4] h[of 5]] by auto
  obtain a where a: "int16 [s ! 6, s ! 7] = Inr a" "0 \<le> a" "a \<le> 255"
    using int16_pair[OF h[of 6] h[of 7]] by auto
  have slices: "take 2 s = [s ! 0, s ! 1]" "take 2 (drop 2 s) = [s ! 2, s ! 3]"
    "take 2 (drop 4 s) = [s ! 4, s ! 5]" "drop (length s - 2) s = [s ! 6, s ! 7]"
    by (subst (1) s, simp add: len)+
  have nohex: "\<not> list_ex (\<lambda>char. char_upper char \<notin> set hex_digits) s"
    using hex by (simp add: list_ex_not_hex)
  have "from_hex_code s = Color_init [PyInt r, PyInt g, PyInt b, PyInt a]"
    unfolding from_hex_code_def slices r g b a bind_err_def using nohex len
    by simp
  then show ?thesis
    using Color_init_rgba[OF r(2,3) g(2,3) b(2,3) a(2,3)]
      uint_colorref[OF r(2,3) g(2,3) b(2,3)] r g b a
    by simp
qed

lemma from_hex_code_FF000080:
  "from_hex_code ''FF000080'' =
     Inr \<lparr>color_r = PyInt 255, color_g = PyInt 0, color_b = PyInt 0,
          color_a = Some (PyInt 128),
          color_color = [PyInt 255, PyInt 0, PyInt 0, PyInt 128], color_colorref = 255\<rparr>"
  by (simp add: from_hex_code_def char_upper_def hex_digits_def int16_def digit_value_def
      bind_err_def Color_init_def out_of_range_def)

lemma from_hex_code_00FF00:
  "from_hex_code ''00FF00'' =
     Inr \<lparr>color_r = PyInt 0, color_g = PyInt 255, color_b = PyInt 0, color_a = None,
          color_color = [PyInt 0, PyInt 255, PyInt 0], color_colorref = 65280\<rparr>"
  by (simp add: from_hex_code_def char_upper_def hex_digits_def int16_def digit_value_def
      bind_err_def Color_init_def out_of_range_def)

text \<open>
  Claim C7. The hex constructor fails with ValueError for every string whose length is
  neither 6 nor 8 or that has a character outside \<open>[0-9A-Fa-f]\<close>. On any other string
  it returns a Color whose \<open>r\<close>, \<open>g\<close>, \<open>b\<close> (and alpha, for 8 characters) are the
  values of the successive pairs of hex digits, and whose packed value holds \<open>r\<close>,
  \<open>g\<close>, \<open>b\<close> only. \<open>FF000080\<close> gives \<open>r = 255\<close>, \<open>g = 0\<close>, \<open>b = 0\<close>, alpha 128
  stored and packed value 255; \<open>00FF00\<close> gives \<open>g = 255\<close> and \<open>r = b = 0\<close>.
\<close>

theorem from_hex_code_spec:
  "((length s \<noteq> 6 \<and> length s \<noteq> 8) \<or> (\<exists>c\<in>set s. \<not> hex_char c)
      \<longrightarrow> from_hex_code s = Inl ValueError)
   \<and> (length s = 6 \<and> (\<forall>c\<in>set s. hex_char c) \<longrightarrow>
        (\<exists>c r g b. from_hex_code s = Inr c
           \<and> int16 [s ! 0, s ! 1] = Inr r \<and> int16 [s ! 2, s ! 3] = Inr g
           \<and> int16 [s ! 4, s ! 5] = Inr b
           \<and> color_r c = PyInt r \<and> color_g c = PyInt g \<and> color_b c = PyInt b
           \<and> color_a c = None
           \<and> uint (color_colorref c) = (push_bit 16 b OR push_bit 8 g) OR r))
   \<and> (length s = 8 \<and> (\<forall>c\<in>set s. hex_char c) \<longrightarrow>
        (\<exists>c r g b a. from_hex_code s = Inr c
           \<and> int16 [s ! 0, s ! 1] = Inr r \<and> int16 [s ! 2, s ! 3] = Inr g
           \<and> int16 [s ! 4, s ! 5] = Inr b \<and> int16 [s ! 6, s ! 7] = Inr a
           \<and> color_r c = PyInt r \<and> color_g c = PyInt g \<and> color_b c = PyInt b
           \<and> color_a c = Some (PyInt a)
           \<and> uint (color_colorref c) = (push_bit 16 b OR push_bit 8 g) OR r))
   \<and> from_hex_code ''FF000080'' =
       Inr \<lparr>color_r = PyInt 255, color_g = PyInt 0, color_b = PyInt 0,
            color_a = Some (PyInt 128),
            color_color = [PyInt 255, PyInt 0, PyInt 0, PyInt 128], color_colorref = 255\<rparr>
   \<and> from_hex_code ''00FF00'' =
       Inr \<lparr>color_r = PyInt 0, color_g = PyInt 255, color_b = PyInt 0, color_a = None,
            color_color = [PyInt 0, PyInt 255, PyInt 0], color_colorref = 65280\<rparr>"
  using from_hex_code_invalid[of s] from_hex_code_6[of s] from_hex_code_8[of s]
    from_hex_code_FF000080 from_hex_code_00FF00
  by blast

theorem from_hex_code_spec_witness:
  "from_hex_code ''12345'' = Inl ValueError
   \<and> from_hex_code ''12G456'' = Inl ValueError
   \<and> (\<exists>c. from_hex_code ''1a2B3c'' = Inr c
         \<and> color_r c = PyInt 26 \<and> color_g c = PyInt 43 \<and> color_b c = PyInt 60
         \<and> color_a c = None \<and> uint (color_colorref c) = 3943194)
   \<and> (\<exists>c. from_hex_code ''1a2B3cFf'' = Inr c
         \<and> color_r c = PyInt 26 \<and> color_g c = PyInt 43 \<and> color_b c = PyInt 60
         \<and> color_a c = Some (PyInt 255) \<and> uint (color_colorref c) = 3943194)"
proof -
  have 1: "from_hex_code ''12345'' = Inl ValueError"
    using from_hex_code_spec[of "''12345''"] by simp
  have 2: "from_hex_code ''12G456'' = Inl ValueError"
    using from_hex_code_spec[of "''12G456''"] by (simp add: hex_char_def)
  have v: "int16 ''1a'' = Inr 26" "int16 ''2B'' = Inr 43" "int16 ''3c'' = Inr 60"
    "int16 ''Ff'' = Inr 255"
    by (simp_all add: int16_def digit_value_def)
  have p: "(push_bit 16 60 OR push_bit 8 43) OR 26 = (3943194::int)" by simp
  have 3: "\<exists>c. from_hex_code ''1a2B3c'' = Inr c
         \<and> color_r c = PyInt 26 \<and> color_g c = PyInt 43 \<and> color_b c = PyInt 60
         \<and> color_a c = None \<and> uint (color_colorref c) = 3943194"
    using from_hex_code_spec[of "''1a2B3c''"] by (simp add: hex_char_def v p)
  have 4: "\<exists>c. from_hex_code ''1a2B3cFf'' = Inr c
         \<and> color_r c = PyInt 26 \<and> color_g c = PyInt 43 \<and> color_b c = PyInt 60
         \<and> color_a c = Some (PyInt 255) \<and> uint (color_colorref c) = 3943194"
    using from_hex_code_spec[of "''1a2B3cFf''"] by (simp add: hex_char_def v p)
  show ?thesis using 1 2 3 4 by blast
qed

section \<open>Line and Rect: construction\<close>

lemma positive_int_Inr: "positive_int v = Inr n \<longleftrightarrow> v = PyInt n \<and> 0 < n"
  by (cases v) auto

lemma positive_int_Inl: "\<not> positive_integer v \<Longrightarrow> positive_int v = Inl ValueError"
  by (cases v) (auto simp add: positive_integer_def)

lemma positive_int_cases:
  obtains "\<not> positive_integer v" "positive_int v = Inl ValueError"
  | n where "v = PyInt n" "0 < n" "positive_int v = Inr n"
  by (cases v) (auto simp add: positive_integer_def)

lemma Line_init_invalid: "\<not> positive_integer width \<Longrightarrow> Line_init m s e c width aa = Inl ValueError"
  by (simp add: Line_init_def positive_int_Inl bind_err_def)

lemma Line_init_valid:
  "0 < w \<Longrightarrow> Line_init m s e c (PyInt w) aa =
     Inr \<lparr>line_master = m, line_start = s, line_end = e, line_color = c, line_width = w,
          line_radius = w div 2,
          line_slope = (if coord_x e = coord_x s then None
                        else Some ((coord_y e - coord_y s) / (coord_x e - coord_x s)))\<rparr>"
  by (simp add: Line_init_def bind_err_def py_truediv_def)

lemma Line_init_Inr:
  assumes "Line_init m s e c width aa = Inr l"
  shows "\<exists>w. width = PyInt w \<and> 0 < w \<and>
     l = \<lparr>line_master = m, line_start = s, line_end = e, line_color = c, line_width = w,
          line_radius = w div 2,
          line_slope = (if coord_x e = coord_x s then None
                        else Some ((coord_y e - coord_y s) / (coord_x e - coord_x s)))\<rparr>"
proof (cases width rule: positive_int_cases)
  case 1
  then show ?thesis using assms by (simp add: Line_init_def bind_err_def)
next
  case (2 n)
  then show ?thesis using assms Line_init_valid[of n m s e c aa] by auto
qed


lemma Rect_init_invalid:
  assumes "\<not> positive_integer w \<or> \<not> positive_integer h \<or> \<not> positive_integer bw"
  shows "Rect_init m p w h bc bw aa f fc = Inl ValueError"
proof (cases w rule: positive_int_cases)
  case 1
  then show ?thesis by (simp add: Rect_init_def bind_err_def)
next
  case w: (2 wn)
  show ?thesis
  proof (cases h rule: positive_int_cases)
    case 1
    then show ?thesis using w by (simp add: Rect_init_def bind_err_def)
  next
    case h: (2 hn)
    show ?thesis
    proof (cases bw rule: positive_int_cases)
      case 1
      then show ?thesis using w h by (simp add: Rect_init_def bind_err_def)
    next
      case (2 n)
      then show ?thesis using assms w h by (simp add: positive_integer_def)
    qed
  qed
qed

lemma Line_init_width:
  "Line_init m s e c width aa = Inr l \<Longrightarrow> width = PyInt (line_width l) \<and> 0 < line_width l"
  using Line_init_Inr[of m s e c width aa l] by auto

lemma Rect_init_valid:
  assumes "0 < wn" "0 < hn" "0 < bn"
    and "\<not> (coord_x p + of_int wn < 0 \<or> coord_y p < 0)"
    and "\<not> (coord_x p < 0 \<or> coord_y p + of_int hn < 0)"
    and "\<not> (coord_x p + of_int wn < 0 \<or> coord_y p + of_int hn < 0)"
  shows "\<exists>te be le re.
     Line_init m p \<lparr>coord_x = coord_x p + of_int wn, coord_y = coord_y p\<rparr> bc (PyInt bn) aa = Inr te
   \<and> Line_init m \<lparr>coord_x = coord_x p, coord_y = coord_y p + of_int hn\<rparr>
         \<lparr>coord_x = coord_x p + of_int wn, coord_y = coord_y p + of_int hn\<rparr> bc (PyInt bn) aa = Inr be
   \<and> Line_init m p \<lparr>coord_x = coord_x p, coord_y = coord_y p + of_int hn\<rparr> bc (PyInt bn) aa = Inr le
   \<and> Line_init m \<lparr>coord_x = coord_x p + of_int wn, coord_y = coord_y p\<rparr>
         \<lparr>coord_x = coord_x p + of_int wn, coord_y = coord_y p + of_int hn\<rparr> bc (PyInt bn) aa = Inr re
   \<and> Rect_init m p (PyInt wn) (PyInt hn) bc (PyInt bn) aa f fc =
       Inr \<lparr>rect_master = m, rect_width = wn, rect_height = hn,
            rect_border_color = bc, rect_borderwidth = bn,
            rect_antialiasing = aa, rect_fill = f, rect_fill_color = fc,
            rect_top_left = p,
            rect_top_right = \<lparr>coord_x = coord_x p + of_int wn, coord_y = coord_y p\<rparr>,
            rect_bottom_left = \<lparr>coord_x = coord_x p, coord_y = coord_y p + of_int hn\<rparr>,
            rect_bottom_right =
              \<lparr>coord_x = coord_x p + of_int wn, coord_y = coord_y p + of_int hn\<rparr>,
            rect_top_edge = te, rect_bottom_edge = be,
            rect_left_edge = le, rect_right_edge = re\<rparr>"
proof -
  let ?tr = "\<lparr>coord_x = coord_x p + of_int wn, coord_y = coord_y p\<rparr>"
  let ?bl = "\<lparr>coord_x = coord_x p, coord_y = coord_y p + of_int hn\<rparr>"
  let ?br = "\<lparr>coord_x = coord_x p + of_int wn, coord_y = coord_y p + of_int hn\<rparr>"
  have c: "Coordinate_init (coord_x p + of_int wn) (coord_y p) = Inr ?tr"
    "Coordinate_init (coord_x p) (coord_y p + of_int hn) = Inr ?bl"
    "Coordinate_init (coord_x p + of_int wn) (coord_y p + of_int hn) = Inr ?br"
    using assms(4,5,6) unfolding Coordinate_init_def by simp_all
  obtain te where te: "Line_init m p ?tr bc (PyInt bn) aa = Inr te"
    using Line_init_valid[OF assms(3)] by blast
  obtain be where be: "Line_init m ?bl ?br bc (PyInt bn) aa = Inr be"
    using Line_init_valid[OF assms(3)] by blast
  obtain le where le: "Line_init m p ?bl bc (PyInt bn) aa = Inr le"
    using Line_init_valid[OF assms(3)] by blast
  obtain re where re: "Line_init m ?tr ?br bc (PyInt bn) aa = Inr re"
    using Line_init_valid[OF assms(3)] by blast
  have p: "positive_int (PyInt wn) = Inr wn" "positive_int (PyInt hn) = Inr hn"
    "positive_int (PyInt bn) = Inr bn"
    using assms(1,2,3) by simp_all
  have "Rect_init m p (PyInt wn) (PyInt hn) bc (PyInt bn) aa f fc =
       Inr \<lparr>rect_master = m, rect_width = wn, rect_height = hn,
            rect_border_color = bc, rect_borderwidth = bn,
            rect_antialiasing = aa, rect_fill = f, rect_fill_color = fc,
            rect_top_left = p, rect_top_right = ?tr, rect_bottom_left = ?bl,
            rect_bottom_right = ?br,
            rect_top_edge = te, rect_bottom_edge = be,
            rect_left_edge = le, rect_right_edge = re\<rparr>"
    using assms(1,2,3) by (simp add: Rect_init_def c te be le re bind_err_def)
  then show ?thesis using te be le re by blast
qed

lemma Rect_init_coordinate_error:
  assumes "0 < wn" "0 < hn" "0 < bn"
    and "(coord_x p + of_int wn < 0 \<or> coord_y p < 0)
       \<or> (coord_x p < 0 \<or> coord_y p + of_int hn < 0)
       \<or> (coord_x p + of_int wn < 0 \<or> coord_y p + of_int hn < 0)"
  shows "Rect_init m p (PyInt wn) (PyInt hn) bc (PyInt bn) aa f fc = Inl ValueError"
proof -
  have p: "positive_int (PyInt wn) = Inr wn" "positive_int (PyInt hn) = Inr hn"
    "positive_int (PyInt bn) = Inr bn"
    using assms(1,2,3) by simp_all
  consider (tr) "coord_x p + of_int wn < 0 \<or> coord_y p < 0"
    | (bl) "\<not> (coord_x p + of_int wn < 0 \<or> coord_y p < 0)"
           "coord_x p < 0 \<or> coord_y p + of_int hn < 0"
    using assms(4) by linarith
  then show ?thesis
  proof cases
    case tr
    then have "Coordinate_init (coord_x p + of_int wn) (coord_y p) = Inl ValueError"
      unfolding Coordinate_init_def by simp
    then show ?thesis using assms(1,2,3) by (simp add: Rect_init_def bind_err_def)
  next
    case bl
    then have "Coordinate_init (coord_x p + of_int wn) (coord_y p)
                 = Inr \<lparr>coord_x = coord_x p + of_int wn, coord_y = coord_y p\<rparr>"
      "Coordinate_init (coord_x p) (coord_y p + of_int hn) = Inl ValueError"
      unfolding Coordinate_init_def by simp_all
    then show ?thesis using assms(1,2,3) by (simp add: Rect_init_def bind_err_def)
  qed
qed

lemma Rect_init_Inr:
  assumes "Rect_init m p w h bc bw aa f fc = Inr r"
  obtains wn hn bn where "w = PyInt wn" "0 < wn" "h = PyInt hn" "0 < hn" "bw = PyInt bn" "0 < bn"
    "rect_master r = m" "rect_width r = wn" "rect_height r = hn" "rect_border_color r = bc"
    "rect_borderwidth r = bn" "rect_antialiasing r = aa" "rect_fill r = f"
    "rect_fill_color r = fc" "rect_top_left r = p"
    "rect_top_right r = \<lparr>coord_x = coord_x p + of_int wn, coord_y = coord_y p\<rparr>"
    "rect_bottom_left r = \<lparr>coord_x = coord_x p, coord_y = coord_y p + of_int hn\<rparr>"
    "rect_bottom_right r =
           \<lparr>coord_x = coord_x p + of_int wn, coord_y = coord_y p + of_int hn\<rparr>"
    "Line_init m p (rect_top_right r) bc (PyInt bn) aa = Inr (rect_top_edge r)"
    "Line_init m (rect_bottom_left r) (rect_bottom_right r) bc (PyInt bn) aa
           = Inr (rect_bottom_edge r)"
    "Line_init m p (rect_bottom_left r) bc (PyInt bn) aa = Inr (rect_left_edge r)"
    "Line_init m (rect_top_right r) (rect_bottom_right r) bc (PyInt bn) aa
           = Inr (rect_right_edge r)"
proof -
  have valid: "positive_integer w \<and> positive_integer h \<and> positive_integer bw"
    using Rect_init_invalid[of w h bw m p bc aa f fc] assms by auto
  then obtain wn hn bn where n: "w = PyInt wn" "0 < wn" "h = PyInt hn" "0 < hn"
    "bw = PyInt bn" "0 < bn"
    by (cases w; cases h; cases bw) (auto simp add: positive_integer_def)
  have ok: "\<not> (coord_x p + of_int wn < 0 \<or> coord_y p < 0)"
    "\<not> (coord_x p < 0 \<or> coord_y p + of_int hn < 0)"
    "\<not> (coord_x p + of_int wn < 0 \<or> coord_y p + of_int hn < 0)"
    using Rect_init_coordinate_error[OF n(2,4,6), of p m bc aa f fc] assms n(1,3,5)
    by auto
  from Rect_init_valid[OF n(2,4,6) ok, of m bc aa f fc] obtain te be le re where
    L: "Line_init m p \<lparr>coord_x = coord_x p + of_int wn, coord_y = coord_y p\<rparr> bc (PyInt bn) aa
          = Inr te"
      "Line_init m \<lparr>coord_x = coord_x p, coord_y = coord_y p + of_int hn\<rparr>
         \<lparr>coord_x = coord_x p + of_int wn, coord_y = coord_y p + of_int hn\<rparr> bc (PyInt bn) aa
          = Inr be"
      "Line_init m p \<lparr>coord_x = coord_x p, coord_y = coord_y p + of_int hn\<rparr> bc (PyInt bn) aa
          = Inr le"
      "Line_init m \<lparr>coord_x = coord_x p + of_int wn, coord_y = coord_y p\<rparr>
         \<lparr>coord_x = coord_x p + of_int wn, coord_y = coord_y p + of_int hn\<rparr> bc (PyInt bn) aa
          = Inr re"
    and R: "Rect_init m p (PyInt wn) (PyInt hn) bc (PyInt bn) aa f fc =
       Inr \<lparr>rect_master = m, rect_width = wn, rect_height = hn,
            rect_border_color = bc, rect_borderwidth = bn,
            rect_antialiasing = aa, rect_fill = f, rect_fill_color = fc,
            rect_top_left = p,
            rect_top_right = \<lparr>coord_x = coord_x p + of_int wn, coord_y = coord_y p\<rparr>,
            rect_bottom_left = \<lparr>coord_x = coord_x p, coord_y = coord_y p + of_int hn\<rparr>,
            rect_bottom_right =
              \<lparr>coord_x = coord_x p + of_int wn, coord_y = coord_y p + of_int hn\<rparr>,
            rect_top_edge = te, rect_bottom_edge = be,
            rect_left_edge = le, rect_right_edge = re\<rparr>"
    by (elim exE conjE)
  have r: "r = \<lparr>rect_master = m, rect_width = wn, rect_height = hn,
            rect_border_color = bc, rect_borderwidth = bn,
            rect_antialiasing = aa, rect_fill = f, rect_fill_color = fc,
            rect_top_left = p,
            rect_top_right = \<lparr>coord_x = coord_x p + of_int wn, coord_y = coord_y p\<rparr>,
            rect_bottom_left = \<lparr>coord_x = coord_x p, coord_y = coord_y p + of_int hn\<rparr>,
            rect_bottom_right =
              \<lparr>coord_x = coord_x p + of_int wn, coord_y = coord_y p + of_int hn\<rparr>,
            rect_top_edge = te, rect_bottom_edge = be,
            rect_left_edge = le, rect_right_edge = re\<rparr>"
    using assms R unfolding n(1,3,5) by simp
  show ?thesis
    by (rule that[of wn hn bn]) (simp_all add: n r L)
qed

text \<open>
  Claim C8. A Line whose width is zero, negative or not an integer is refused with
  ValueError, and so is a Rect when its width, its height or its borderwidth is not a
  strictly positive integer. A constructor returns either the exception or the object,
  and an object it returns holds the validated positive integers (a Rect's edges carry
  its borderwidth).
\<close>

theorem width_validation:
  "(\<not> positive_integer width \<longrightarrow> Line_init m s e c width aa = Inl ValueError)
   \<and> (\<not> positive_integer w \<or> \<not> positive_integer h \<or> \<not> positive_integer bw \<longrightarrow>
        Rect_init m p w h bc bw aa f fc = Inl ValueError)
   \<and> (\<forall>l. Line_init m s e c width aa = Inr l \<longrightarrow>
        width = PyInt (line_width l) \<and> 0 < line_width l)
   \<and> (\<forall>r. Rect_init m p w h bc bw aa f fc = Inr r \<longrightarrow>
        w = PyInt (rect_width r) \<and> 0 < rect_width r
        \<and> h = PyInt (rect_height r) \<and> 0 < rect_height r
        \<and> bw = PyInt (rect_borderwidth r) \<and> 0 < rect_borderwidth r
        \<and> line_width (rect_top_edge r) = rect_borderwidth r
        \<and> line_width (rect_bottom_edge r) = rect_borderwidth r
        \<and> line_width (rect_left_edge r) = rect_borderwidth r
        \<and> line_width (rect_right_edge r) = rect_borderwidth r)"
proof -
  have 1: "Line_init m s e c width aa = Inl ValueError" if "\<not> positive_integer width"
    using that by (rule Line_init_invalid)
  have 2: "Rect_init m p w h bc bw aa f fc = Inl ValueError"
    if "\<not> positive_integer w \<or> \<not> positive_integer h \<or> \<not> positive_integer bw"
    using that by (rule Rect_init_invalid)
  have 3: "width = PyInt (line_width l) \<and> 0 < line_width l"
    if "Line_init m s e c width aa = Inr l" for l
    using that by (rule Line_init_width)
  have 4: "w = PyInt (rect_width r) \<and> 0 < rect_width r
        \<and> h = PyInt (rect_height r) \<and> 0 < rect_height r
        \<and> bw = PyInt (rect_borderwidth r) \<and> 0 < rect_borderwidth r
        \<and> line_width (rect_top_edge r) = rect_borderwidth r
        \<and> line_width (rect_bottom_edge r) = rect_borderwidth r
        \<and> line_width (rect_left_edge r) = rect_borderwidth r
        \<and> line_width (rect_right_edge r) = rect_borderwidth r"
    if a: "Rect_init m p w h bc bw aa f fc = Inr r" for r
  proof (rule Rect_init_Inr[OF a])
    fix wn hn bn
    assume n: "w = PyInt wn" "0 < wn" "h = PyInt hn" "0 < hn" "bw = PyInt bn" "0 < bn"
      "rect_width r = wn" "rect_height r = hn" "rect_borderwidth r = bn"
      and edges: "Line_init m p (rect_top_right r) bc (PyInt bn) aa = Inr (rect_top_edge r)"
        "Line_init m (rect_bottom_left r) (rect_bottom_right r) bc (PyInt bn) aa
           = Inr (rect_bottom_edge r)"
        "Line_init m p (rect_bottom_left r) bc (PyInt bn) aa = Inr (rect_left_edge r)"
        "Line_init m (rect_top_right r) (rect_bottom_right r) bc (PyInt bn) aa
           = Inr (rect_right_edge r)"
    show ?thesis
      using n edges[THEN Line_init_width] by simp
  qed
  show ?thesis
    using 1 2 3 4 by blast
qed

theorem width_validation_witness:
  "Line_init window1 \<lparr>coord_x = 0, coord_y = 0\<rparr> \<lparr>coord_x = 5, coord_y = 5\<rparr> black (PyInt 0) False
     = Inl ValueError
   \<and> Line_init window1 \<lparr>coord_x = 0, coord_y = 0\<rparr> \<lparr>coord_x = 5, coord_y = 5\<rparr> black (PyInt (- 1))
       False = Inl ValueError
   \<and> Line_init window1 \<lparr>coord_x = 0, coord_y = 0\<rparr> \<lparr>coord_x = 5, coord_y = 5\<rparr> black
       (PyFloat (3 / 2)) False = Inl ValueError
   \<and> Rect_init window1 \<lparr>coord_x = 0, coord_y = 0\<rparr> (PyInt 0) (PyInt 10) black (PyInt 1) False
       False black = Inl ValueError
   \<and> Rect_init window1 \<lparr>coord_x = 0, coord_y = 0\<rparr> (PyInt 10) (PyFloat 10) black (PyInt 1) False
       False black = Inl ValueError
   \<and> Rect_init window1 \<lparr>coord_x = 0, coord_y = 0\<rparr> (PyInt 10) (PyInt 10) black (PyInt (- 1)) False
       False black = Inl ValueError
   \<and> (\<exists>r. Rect_init window1 \<lparr>coord_x = 0, coord_y = 0\<rparr> (PyInt 10) (PyInt 20) black (PyInt 1)
            False False black = Inr r
          \<and> rect_width r = 10 \<and> rect_height r = 20 \<and> rect_borderwidth r = 1)"
proof -
  let ?o = "\<lparr>coord_x = 0, coord_y = 0\<rparr>"
  let ?e = "\<lparr>coord_x = 5, coord_y = 5\<rparr>"
  have 1: "Line_init window1 ?o ?e black (PyInt 0) False = Inl ValueError"
    using width_validation[where width = "PyInt 0" and m = window1 and s = ?o and e = ?e and c = black and aa = False]
    by (simp add: positive_integer_def)
  have 2: "Line_init window1 ?o ?e black (PyInt (- 1)) False = Inl ValueError"
    using width_validation[where width = "PyInt (- 1)" and m = window1 and s = ?o and e = ?e and c = black and aa = False]
    by (simp add: positive_integer_def)
  have 3: "Line_init window1 ?o ?e black (PyFloat (3 / 2)) False = Inl ValueError"
    using width_validation[where width = "PyFloat (3 / 2)" and m = window1 and s = ?o and e = ?e and c = black and aa = False]
    by (simp add: positive_integer_def)
  have 4: "Rect_init window1 ?o (PyInt 0) (PyInt 10) black (PyInt 1) False False black
             = Inl ValueError"
    using width_validation[where w = "PyInt 0" and h = "PyInt 10" and bw = "PyInt 1" and m = window1
        and p = ?o and bc = black and aa = False and f = False and fc = black]
    by (simp add: positive_integer_def)
  have 5: "Rect_init window1 ?o (PyInt 10) (PyFloat 10) black (PyInt 1) False False black
             = Inl ValueError"
    using width_validation[where w = "PyInt 10" and h = "PyFloat 10" and bw = "PyInt 1" and m = window1
        and p = ?o and bc = black and aa = False and f = False and fc = black]
    by (simp add: positive_integer_def)
  have 6: "Rect_init window1 ?o (PyInt 10) (PyInt 10) black (PyInt (- 1)) False False black
             = Inl ValueError"
    using width_validation[where w = "PyInt 10" and h = "PyInt 10" and bw = "PyInt (- 1)" and m = window1
        and p = ?o and bc = black and aa = False and f = False and fc = black]
    by (simp add: positive_integer_def)
  obtain r where r: "Rect_init window1 ?o (PyInt 10) (PyInt 20) black (PyInt 1) False False black
      = Inr r"
    using Rect_init_valid[of 10 20 1 ?o window1 black False False black] by auto
  have 7: "rect_width r = 10 \<and> rect_height r = 20 \<and> rect_borderwidth r = 1"
    using width_validation[where w = "PyInt 10" and h = "PyInt 20" and bw = "PyInt 1" and m = window1
        and p = ?o and bc = black and aa = False and f = False and fc = black] r
    by simp
  show ?thesis using 1 2 3 4 5 6 7 r by blast
qed

section \<open>Line: the axis-aligned fast path\<close>

lemma Line_display_vertical:
  "line_slope l = None \<Longrightarrow>
     Line_display l =
       Some (Inr [fill_rect (window_hwnd (line_master l))
                    (coord_x (line_start l)) (coord_y (line_start l))
                    (of_int (line_width l)) (coord_y (line_end l) - coord_y (line_start l))
                    (color_colorref (line_color l))])"
  by (simp add: Line_display_def)

lemma Line_display_horizontal:
  "line_slope l = Some 0 \<Longrightarrow>
     Line_display l =
       Some (Inr [fill_rect (window_hwnd (line_master l))
                    (coord_x (line_start l)) (coord_y (line_start l))
                    (coord_x (line_end l) - coord_x (line_start l)) (of_int (line_width l))
                    (color_colorref (line_color l))])"
  by (simp add: Line_display_def)

lemma Line_init_display_vertical:
  assumes "Line_init m s e c width aa = Inr l" "coord_x s = coord_x e"
  shows "Line_display l =
           Some (Inr [fill_rect (window_hwnd m) (coord_x s) (coord_y s)
                        (of_int (line_width l)) (coord_y e - coord_y s) (color_colorref c)])"
proof -
  from Line_init_Inr[OF assms(1)] assms(2) have "line_slope l = None" by auto
  from Line_display_vertical[OF this] Line_init_Inr[OF assms(1)] show ?thesis by auto
qed

lemma Line_init_display_horizontal:
  assumes "Line_init m s e c width aa = Inr l" "coord_x s \<noteq> coord_x e" "coord_y s = coord_y e"
  shows "Line_display l =
           Some (Inr [fill_rect (window_hwnd m) (coord_x s) (coord_y s)
                        (coord_x e - coord_x s) (of_int (line_width l)) (color_colorref c)])"
proof -
  from Line_init_Inr[OF assms(1)] assms(2,3) have "line_slope l = Some 0" by auto
  from Line_display_horizontal[OF this] Line_init_Inr[OF assms(1)] show ?thesis by auto
qed





section \<open>Line: the stepping loop\<close>

text \<open>
  Partial correctness induction for the loop, with the eleven arguments uncurried.
\<close>

lemmas stepper_partial_induct =
  stepper.raw_induct[where xa = "((((((((((l, slope), dx), dy), sx), sy), te), x), y), err), coords)"
    and ya = res, unfolded prod.case] for l slope dx dy sx sy te x y err coords res

lemma stepper_stuck_aux:
  assumes "stepper l slope dx dy sx sy te x y err coords = Some res"
  shows "te \<le> - dy \<longrightarrow> x \<noteq> coord_x (line_end l) \<longrightarrow>
           (\<exists>e y' cs. res = Inl e
              \<and> band l slope x [- line_radius l..line_radius l] (y', cs) = Inl e)"
proof (rule stepper_partial_induct[where P = "\<lambda>l slope dx dy sx sy te x y err coords res.
    te \<le> - dy \<longrightarrow> x \<noteq> coord_x (line_end l) \<longrightarrow>
      (\<exists>e y' cs. res = Inl e
         \<and> band l slope x [- line_radius l..line_radius l] (y', cs) = Inl e)", OF _ assms])
  fix f :: "Line \<Rightarrow> rat \<Rightarrow> rat \<Rightarrow> rat \<Rightarrow> rat \<Rightarrow> rat \<Rightarrow> rat \<Rightarrow> rat \<Rightarrow> rat \<Rightarrow> rat \<Rightarrow> Coordinate list
     \<Rightarrow> (error + Coordinate list) option"
  fix l slope dx dy sx sy te x y err coords res
  assume IH: "\<And>l slope dx dy sx sy te x y err coords res.
        f l slope dx dy sx sy te x y err coords = Some res \<Longrightarrow>
        te \<le> - dy \<longrightarrow> x \<noteq> coord_x (line_end l) \<longrightarrow>
          (\<exists>e y' cs. res = Inl e
             \<and> band l slope x [- line_radius l..line_radius l] (y', cs) = Inl e)"
  assume step: "(case band l slope x [- line_radius l..line_radius l] (y, coords) of
      Inl e \<Rightarrow> Some (Inl e)
      | Inr (y1, coords1) \<Rightarrow>
          if x = coord_x (line_end l) \<and> y1 = coord_y (line_end l)
          then Some (Inr coords1)
          else let error2 = if - dy < te then err - dy else err;
                   x2 = if - dy < te then x + sx else x;
                   error3 = if te < dx then error2 + dx else error2;
                   y3 = if te < dx then y1 + sy else y1
               in f l slope dx dy sx sy te x2 y3 error3 coords1) = Some res"
  show "te \<le> - dy \<longrightarrow> x \<noteq> coord_x (line_end l) \<longrightarrow>
          (\<exists>e y' cs. res = Inl e
             \<and> band l slope x [- line_radius l..line_radius l] (y', cs) = Inl e)"
  proof (intro impI)
    assume stuck: "te \<le> - dy" "x \<noteq> coord_x (line_end l)"
    show "\<exists>e y' cs. res = Inl e
             \<and> band l slope x [- line_radius l..line_radius l] (y', cs) = Inl e"
    proof (cases "band l slope x [- line_radius l..line_radius l] (y, coords)")
      case (Inl e)
      then show ?thesis using step by auto
    next
      case (Inr r)
      obtain y1 coords1 where r: "r = (y1, coords1)" by (cases r)
      from step Inr r stuck
      have "f l slope dx dy sx sy te x (if te < dx then y1 + sy else y1)
              (if te < dx then err + dx else err) coords1 = Some res"
        by (simp add: Let_def)
      from IH[OF this] stuck show ?thesis by simp
    qed
  qed
qed

lemma stepper_stuck:
  assumes "two_error \<le> - dy" "x \<noteq> coord_x (line_end l)"
  shows "stepper l slope dx dy step_x step_y two_error x y error coords \<noteq> Some (Inr cs)"
  using stepper_stuck_aux[of l slope dx dy step_x step_y two_error x y error coords "Inr cs"] assms
  by auto

lemma stepper_diverges:
  assumes "two_error \<le> - dy" "x \<noteq> coord_x (line_end l)"
    and "\<And>y' cs. \<exists>r. band l slope x [- line_radius l..line_radius l] (y', cs) = Inr r"
  shows "stepper l slope dx dy step_x step_y two_error x y error coords = None"
proof (cases "stepper l slope dx dy step_x step_y two_error x y error coords")
  case None
  then show ?thesis .
next
  case (Some res)
  from stepper_stuck_aux[OF Some] assms(1,2) obtain e y' cs where
    "band l slope x [- line_radius l..line_radius l] (y', cs) = Inl e" by blast
  with assms(3)[of y' cs] show ?thesis by auto
qed

lemma steep_line_never_completes:
  assumes "Line_init m s e c width aa = Inr l"
    and "coord_x s \<noteq> coord_x e"
    and "2 * \<bar>coord_x s - coord_x e\<bar> \<le> \<bar>coord_y s - coord_y e\<bar>"
  shows "Line_display l \<noteq> Some (Inr cmds)"
proof -
  define slope where "slope = (coord_y e - coord_y s) / (coord_x e - coord_x s)"
  define dx where "dx = \<bar>coord_x s - coord_x e\<bar>"
  define dy where "dy = \<bar>coord_y s - coord_y e\<bar>"
  define step_x :: rat where "step_x = (if coord_x s < coord_x e then 1 else - 1)"
  define step_y :: rat where "step_y = (if coord_y s < coord_y e then 1 else - 1)"
  define run where
    "run = stepper l slope dx dy step_x step_y (2 * (dx - dy)) (coord_x s) (coord_y s) (dx - dy) []"
  have l: "line_start l = s" "line_end l = e" "line_slope l = Some slope"
    using assms(1,2) unfolding slope_def
    by (auto simp add: Line_init_def bind_err_def py_truediv_def split: sum.splits)
  have ne: "slope \<noteq> 0"
    using assms(2,3) unfolding slope_def by auto
  have stuck: "run \<noteq> Some (Inr cs)" for cs
    unfolding run_def
    by (rule stepper_stuck) (use assms(2,3) l in \<open>simp_all add: dx_def dy_def\<close>)
  have "Line_display l =
      (case run of
         None \<Rightarrow> None
       | Some (Inl e) \<Rightarrow> Some (Inl e)
       | Some (Inr coords) \<Rightarrow>
           Some (Inr (map (\<lambda>coord. Window_draw (line_master l) coord (line_color l)) coords)))"
    unfolding Line_display_def run_def dx_def dy_def step_x_def step_y_def
    by (simp add: l ne Let_def)
  then show ?thesis
    using stuck by (cases run) (auto split: sum.splits)
qed

text \<open>
  Claim C1 does not hold of the code: \<open>two_error\<close> is computed once, before the loop,
  so the test \<^verbatim>\<open>two_error > -dy\<close> has the same outcome in every iteration. On the Line
  from \<open>(0, 0)\<close> to \<open>(1, 2)\<close> of width 1 it is false, \<open>x\<close> stays at 0 and never
  reaches \<open>end.x = 1\<close>: the constructor returns the Line and its display never returns.
\<close>

theorem steep_line_display_diverges:
  "Line_init m \<lparr>coord_x = 0, coord_y = 0\<rparr> \<lparr>coord_x = 1, coord_y = 2\<rparr> c (PyInt 1) aa =
     Inr \<lparr>line_master = m, line_start = \<lparr>coord_x = 0, coord_y = 0\<rparr>,
          line_end = \<lparr>coord_x = 1, coord_y = 2\<rparr>, line_color = c, line_width = 1,
          line_radius = 0, line_slope = Some 2\<rparr>
   \<and> Line_display \<lparr>line_master = m, line_start = \<lparr>coord_x = 0, coord_y = 0\<rparr>,
          line_end = \<lparr>coord_x = 1, coord_y = 2\<rparr>, line_color = c, line_width = 1,
          line_radius = 0, line_slope = Some 2\<rparr> = None"
proof
  show "Line_init m \<lparr>coord_x = 0, coord_y = 0\<rparr> \<lparr>coord_x = 1, coord_y = 2\<rparr> c (PyInt 1) aa =
     Inr \<lparr>line_master = m, line_start = \<lparr>coord_x = 0, coord_y = 0\<rparr>,
          line_end = \<lparr>coord_x = 1, coord_y = 2\<rparr>, line_color = c, line_width = 1,
          line_radius = 0, line_slope = Some 2\<rparr>"
    by (simp add: Line_init_def bind_err_def py_truediv_def)
next
  let ?l = "\<lparr>line_master = m, line_start = \<lparr>coord_x = 0, coord_y = 0\<rparr>,
          line_end = \<lparr>coord_x = 1, coord_y = 2\<rparr>, line_color = c, line_width = 1,
          line_radius = 0, line_slope = Some 2\<rparr>"
  have b: "\<exists>r. band ?l 2 0 [- line_radius ?l..line_radius ?l] (y', cs) = Inr r" for y' cs
    by (simp add: upto.simps py_round_def Coordinate_init_def)
  have "stepper ?l 2 1 2 1 1 (- 2) 0 0 (- 1) [] = None"
    by (rule stepper_diverges[OF _ _ b]) simp_all
  then show "Line_display ?l = None"
    by (simp add: Line_display_def)
qed

text \<open>What one pass of the offset loop appends, and how many points.\<close>

lemma band_Inr:
  assumes "band l slope x offsets (y, coords) = Inr (y', coords')"
  shows "coords' = coords @ map (band_point l slope x) offsets"
  using assms
proof (induction offsets arbitrary: y coords)
  case Nil
  then show ?case by simp
next
  case (Cons offset offsets)
  let ?y = "rat_of_int (py_round (slope * (x - coord_x (line_start l)) + coord_y (line_start l)))"
  let ?new = "if slope > 1 then Coordinate_init (x + of_int offset) ?y
              else Coordinate_init x (?y + of_int offset)"
  have pt: "c = band_point l slope x offset" if "?new = Inr c" for c
    using that by (auto simp add: Coordinate_init_def band_point_def split: if_splits)
  from Cons.prems obtain c where c: "?new = Inr c"
    and rest: "band l slope x offsets (?y, coords @ [c]) = Inr (y', coords')"
    by (cases ?new) (simp_all add: Let_def)
  from Cons.IH[OF rest] pt[OF c] show ?case by simp
qed

lemma band_length:
  assumes "band l slope x [- line_radius l..line_radius l] (y, coords) = Inr (y', coords')"
    and "0 \<le> line_radius l"
  shows "length coords' = length coords + nat (2 * line_radius l + 1)"
  using band_Inr[OF assms(1)] assms(2) by simp

lemma floor_rat_numeral: "\<lfloor>numeral a / numeral b :: rat\<rfloor> = numeral a div numeral b"
  using floor_divide_of_int_eq[of "numeral a" "numeral b", where ?'a = rat] by simp

lemma floor_rat_minus_numeral:
  "\<lfloor>- (numeral a / numeral b) :: rat\<rfloor> = - numeral a div numeral b"
  using floor_divide_of_int_eq[of "- numeral a" "numeral b", where ?'a = rat] by simp

text \<open>
  Claim C2 does not hold of the code: the axis of the band is chosen by
  \<^verbatim>\<open>slope > 1\<close>, not by the absolute value. The Line from \<open>(0, 4)\<close> to \<open>(2, 1)\<close>
  of width 3 has slope \<open>-3/2\<close>; its display returns nine pixels, three at each of
  \<open>x = 0, 1, 2\<close>, and each band runs along \<open>y\<close>.
\<close>

theorem steep_negative_line_thickened_along_y:
  "Line_init m \<lparr>coord_x = 0, coord_y = 4\<rparr> \<lparr>coord_x = 2, coord_y = 1\<rparr> c (PyInt 3) aa =
     Inr \<lparr>line_master = m, line_start = \<lparr>coord_x = 0, coord_y = 4\<rparr>,
          line_end = \<lparr>coord_x = 2, coord_y = 1\<rparr>, line_color = c, line_width = 3,
          line_radius = 1, line_slope = Some (- (3 / 2))\<rparr>
   \<and> Line_display \<lparr>line_master = m, line_start = \<lparr>coord_x = 0, coord_y = 4\<rparr>,
          line_end = \<lparr>coord_x = 2, coord_y = 1\<rparr>, line_color = c, line_width = 3,
          line_radius = 1, line_slope = Some (- (3 / 2))\<rparr> =
       Some (Inr [draw_pixel (window_hwnd m) 0 3 (color_colorref c),
                  draw_pixel (window_hwnd m) 0 4 (color_colorref c),
                  draw_pixel (window_hwnd m) 0 5 (color_colorref c),
                  draw_pixel (window_hwnd m) 1 1 (color_colorref c),
                  draw_pixel (window_hwnd m) 1 2 (color_colorref c),
                  draw_pixel (window_hwnd m) 1 3 (color_colorref c),
                  draw_pixel (window_hwnd m) 2 0 (color_colorref c),
                  draw_pixel (window_hwnd m) 2 1 (color_colorref c),
                  draw_pixel (window_hwnd m) 2 2 (color_colorref c)])"
proof
  show "Line_init m \<lparr>coord_x = 0, coord_y = 4\<rparr> \<lparr>coord_x = 2, coord_y = 1\<rparr> c (PyInt 3) aa =
     Inr \<lparr>line_master = m, line_start = \<lparr>coord_x = 0, coord_y = 4\<rparr>,
          line_end = \<lparr>coord_x = 2, coord_y = 1\<rparr>, line_color = c, line_width = 3,
          line_radius = 1, line_slope = Some (- (3 / 2))\<rparr>"
    by (simp add: Line_init_def bind_err_def py_truediv_def)
next
  let ?l = "\<lparr>line_master = m, line_start = \<lparr>coord_x = 0, coord_y = 4\<rparr>,
        line_end = \<lparr>coord_x = 2, coord_y = 1\<rparr>, line_color = c, line_width = 3,
        line_radius = 1, line_slope = Some (- (3 / 2))\<rparr>"
  have s2: "stepper ?l (- (3 / 2)) 2 3 1 (- 1) (- 2) 2 y e cs =
      Some (Inr (cs @ [\<lparr>coord_x = 2, coord_y = 0\<rparr>, \<lparr>coord_x = 2, coord_y = 1\<rparr>,
                       \<lparr>coord_x = 2, coord_y = 2\<rparr>]))" for y e cs
    by (subst stepper.simps)
      (simp add: py_round_def Let_def Coordinate_init_def upto.simps
        floor_rat_numeral floor_rat_minus_numeral)
  have s1: "stepper ?l (- (3 / 2)) 2 3 1 (- 1) (- 2) 1 y e cs =
      Some (Inr (cs @ [\<lparr>coord_x = 1, coord_y = 1\<rparr>, \<lparr>coord_x = 1, coord_y = 2\<rparr>,
                       \<lparr>coord_x = 1, coord_y = 3\<rparr>,
                       \<lparr>coord_x = 2, coord_y = 0\<rparr>, \<lparr>coord_x = 2, coord_y = 1\<rparr>,
                       \<lparr>coord_x = 2, coord_y = 2\<rparr>]))" for y e cs
    by (subst stepper.simps)
      (simp add: py_round_def Let_def Coordinate_init_def upto.simps
        floor_rat_numeral floor_rat_minus_numeral s2)
  have s0: "stepper ?l (- (3 / 2)) 2 3 1 (- 1) (- 2) 0 y e cs =
      Some (Inr (cs @ [\<lparr>coord_x = 0, coord_y = 3\<rparr>, \<lparr>coord_x = 0, coord_y = 4\<rparr>,
                       \<lparr>coord_x = 0, coord_y = 5\<rparr>,
                       \<lparr>coord_x = 1, coord_y = 1\<rparr>, \<lparr>coord_x = 1, coord_y = 2\<rparr>,
                       \<lparr>coord_x = 1, coord_y = 3\<rparr>,
                       \<lparr>coord_x = 2, coord_y = 0\<rparr>, \<lparr>coord_x = 2, coord_y = 1\<rparr>,
                       \<lparr>coord_x = 2, coord_y = 2\<rparr>]))" for y e cs
    by (subst stepper.simps)
      (simp add: py_round_def Let_def Coordinate_init_def upto.simps
        floor_rat_numeral floor_rat_minus_numeral s1)
  show "Line_display ?l =
       Some (Inr [draw_pixel (window_hwnd m) 0 3 (color_colorref c),
                  draw_pixel (window_hwnd m) 0 4 (color_colorref c),
                  draw_pixel (window_hwnd m) 0 5 (color_colorref c),
                  draw_pixel (window_hwnd m) 1 1 (color_colorref c),
                  draw_pixel (window_hwnd m) 1 2 (color_colorref c),
                  draw_pixel (window_hwnd m) 1 3 (color_colorref c),
                  draw_pixel (window_hwnd m) 2 0 (color_colorref c),
                  draw_pixel (window_hwnd m) 2 1 (color_colorref c),
                  draw_pixel (window_hwnd m) 2 2 (color_colorref c)])"
    by (simp add: Line_display_def s0 Window_draw_def)
qed

section \<open>Rect: display and change_fill\<close>

lemma then_display_Inr:
  "then_display a b = Some (Inr cs)
     \<longleftrightarrow> (\<exists>as bs. a = Some (Inr as) \<and> b = Some (Inr bs) \<and> cs = as @ bs)"
  by (auto simp add: then_display_def split: option.splits sum.splits)

lemma Rect_display_Inr:
  "Rect_display r = Some (Inr cmds) \<longleftrightarrow>
     (\<exists>t b l rt. Line_display (rect_top_edge r) = Some (Inr t)
        \<and> Line_display (rect_bottom_edge r) = Some (Inr b)
        \<and> Line_display (rect_left_edge r) = Some (Inr l)
        \<and> Line_display (rect_right_edge r) = Some (Inr rt)
        \<and> cmds = t @ b @ l @ rt @ corner_patch r # (if rect_fill r then [interior_fill r] else []))"
  unfolding Rect_display_def then_display_Inr by auto

lemma Rect_init_edges:
  assumes "Rect_init m p width height bc borderwidth aa f fc = Inr r"
  obtains w h bw where "width = PyInt w" "height = PyInt h" "borderwidth = PyInt bw"
    "Line_display (rect_top_edge r) =
       Some (Inr [fill_rect (window_hwnd m) (coord_x p) (coord_y p) (of_int w) (of_int bw)
                    (color_colorref bc)])"
    "Line_display (rect_bottom_edge r) =
       Some (Inr [fill_rect (window_hwnd m) (coord_x p) (coord_y p + of_int h) (of_int w)
                    (of_int bw) (color_colorref bc)])"
    "Line_display (rect_left_edge r) =
       Some (Inr [fill_rect (window_hwnd m) (coord_x p) (coord_y p) (of_int bw) (of_int h)
                    (color_colorref bc)])"
    "Line_display (rect_right_edge r) =
       Some (Inr [fill_rect (window_hwnd m) (coord_x p + of_int w) (coord_y p) (of_int bw)
                    (of_int h) (color_colorref bc)])"
    "corner_patch r =
       fill_rect (window_hwnd m) (coord_x p + of_int w) (coord_y p + of_int h)
         (of_int bw) (of_int bw) (color_colorref bc)"
    "interior_fill r =
       fill_rect (window_hwnd m) (coord_x p + of_int bw) (coord_y p + of_int bw)
         (of_int (w - bw)) (of_int (h - bw)) (color_colorref fc)"
    "rect_fill r = f"
proof (rule Rect_init_Inr[OF assms])
  fix w h bw
  assume n: "width = PyInt w" "0 < w" "height = PyInt h" "0 < h" "borderwidth = PyInt bw" "0 < bw"
    and fields: "rect_master r = m" "rect_width r = w" "rect_height r = h"
      "rect_border_color r = bc" "rect_borderwidth r = bw" "rect_fill r = f"
      "rect_fill_color r = fc" "rect_top_left r = p"
    and corners: "rect_top_right r = \<lparr>coord_x = coord_x p + of_int w, coord_y = coord_y p\<rparr>"
      "rect_bottom_left r = \<lparr>coord_x = coord_x p, coord_y = coord_y p + of_int h\<rparr>"
      "rect_bottom_right r =
           \<lparr>coord_x = coord_x p + of_int w, coord_y = coord_y p + of_int h\<rparr>"
    and edges: "Line_init m p (rect_top_right r) bc (PyInt bw) aa = Inr (rect_top_edge r)"
      "Line_init m (rect_bottom_left r) (rect_bottom_right r) bc (PyInt bw) aa
           = Inr (rect_bottom_edge r)"
      "Line_init m p (rect_bottom_left r) bc (PyInt bw) aa = Inr (rect_left_edge r)"
      "Line_init m (rect_top_right r) (rect_bottom_right r) bc (PyInt bw) aa
           = Inr (rect_right_edge r)"
  have widths: "line_width (rect_top_edge r) = bw" "line_width (rect_bottom_edge r) = bw"
    "line_width (rect_left_edge r) = bw" "line_width (rect_right_edge r) = bw"
    using edges[THEN Line_init_width] by simp_all
  have g: "coord_x p \<noteq> coord_x (rect_top_right r)" "coord_y p = coord_y (rect_top_right r)"
    "coord_x (rect_bottom_left r) \<noteq> coord_x (rect_bottom_right r)"
    "coord_y (rect_bottom_left r) = coord_y (rect_bottom_right r)"
    "coord_x p = coord_x (rect_bottom_left r)"
    "coord_x (rect_top_right r) = coord_x (rect_bottom_right r)"
    using n(2) by (simp_all add: corners)
  have top: "Line_display (rect_top_edge r) =
      Some (Inr [fill_rect (window_hwnd m) (coord_x p) (coord_y p) (of_int w) (of_int bw)
               (color_colorref bc)])"
    unfolding Line_init_display_horizontal[OF edges(1) g(1,2)] widths corners by simp
  have bottom: "Line_display (rect_bottom_edge r) =
      Some (Inr [fill_rect (window_hwnd m) (coord_x p) (coord_y p + of_int h) (of_int w) (of_int bw)
                  (color_colorref bc)])"
    unfolding Line_init_display_horizontal[OF edges(2) g(3,4)] widths corners by simp
  have left: "Line_display (rect_left_edge r) =
      Some (Inr [fill_rect (window_hwnd m) (coord_x p) (coord_y p) (of_int bw) (of_int h)
                (color_colorref bc)])"
    unfolding Line_init_display_vertical[OF edges(3) g(5)] widths corners by simp
  have right: "Line_display (rect_right_edge r) =
      Some (Inr [fill_rect (window_hwnd m) (coord_x p + of_int w) (coord_y p) (of_int bw) (of_int h)
                 (color_colorref bc)])"
    unfolding Line_init_display_vertical[OF edges(4) g(6)] widths corners by simp
  show ?thesis
    by (rule that[OF n(1,3,5) top bottom left right _ _ fields(6)])
      (simp_all add: corner_patch_def interior_fill_def fields corners)
qed



text \<open>
  Claim C9. \<^verbatim>\<open>change_fill\<close> negates the fill flag and leaves every other field of
  the Rect as it was; it returns the Rect only and makes no drawing call. The new flag
  shows at the next display: where the display of the Rect returns, the display after
  \<^verbatim>\<open>change_fill\<close> returns the same calls without the interior fill when the flag was
  set, and with the interior fill added at the end when it was not.
\<close>

theorem change_fill_frame:
  "rect_fill (change_fill r) = (\<not> rect_fill r)
   \<and> rect_master (change_fill r) = rect_master r
   \<and> rect_width (change_fill r) = rect_width r
   \<and> rect_height (change_fill r) = rect_height r
   \<and> rect_border_color (change_fill r) = rect_border_color r
   \<and> rect_borderwidth (change_fill r) = rect_borderwidth r
   \<and> rect_antialiasing (change_fill r) = rect_antialiasing r
   \<and> rect_fill_color (change_fill r) = rect_fill_color r
   \<and> rect_top_left (change_fill r) = rect_top_left r
   \<and> rect_top_right (change_fill r) = rect_top_right r
   \<and> rect_bottom_left (change_fill r) = rect_bottom_left r
   \<and> rect_bottom_right (change_fill r) = rect_bottom_right r
   \<and> rect_top_edge (change_fill r) = rect_top_edge r
   \<and> rect_bottom_edge (change_fill r) = rect_bottom_edge r
   \<and> rect_left_edge (change_fill r) = rect_left_edge r
   \<and> rect_right_edge (change_fill r) = rect_right_edge r
   \<and> (\<forall>cmds. Rect_display r = Some (Inr cmds) \<longrightarrow>
         Rect_display (change_fill r) =
           Some (Inr (if rect_fill r then butlast cmds else cmds @ [interior_fill r])))"
proof -
  have frame: "rect_fill (change_fill r) = (\<not> rect_fill r)"
    "rect_master (change_fill r) = rect_master r"
    "rect_width (change_fill r) = rect_width r"
    "rect_height (change_fill r) = rect_height r"
    "rect_border_color (change_fill r) = rect_border_color r"
    "rect_borderwidth (change_fill r) = rect_borderwidth r"
    "rect_antialiasing (change_fill r) = rect_antialiasing r"
    "rect_fill_color (change_fill r) = rect_fill_color r"
    "rect_top_left (change_fill r) = rect_top_left r"
    "rect_top_right (change_fill r) = rect_top_right r"
    "rect_bottom_left (change_fill r) = rect_bottom_left r"
    "rect_bottom_right (change_fill r) = rect_bottom_right r"
    "rect_top_edge (change_fill r) = rect_top_edge r"
    "rect_bottom_edge (change_fill r) = rect_bottom_edge r"
    "rect_left_edge (change_fill r) = rect_left_edge r"
    "rect_right_edge (change_fill r) = rect_right_edge r"
    by (simp_all add: change_fill_def)
  have same: "corner_patch (change_fill r) = corner_patch r"
    "interior_fill (change_fill r) = interior_fill r"
    by (simp_all add: corner_patch_def interior_fill_def frame)
  have "Rect_display (change_fill r) =
           Some (Inr (if rect_fill r then butlast cmds else cmds @ [interior_fill r]))"
    if d: "Rect_display r = Some (Inr cmds)" for cmds
  proof -
    from d obtain t b l rt where
      e: "Line_display (rect_top_edge r) = Some (Inr t)"
        "Line_display (rect_bottom_edge r) = Some (Inr b)"
        "Line_display (rect_left_edge r) = Some (Inr l)"
        "Line_display (rect_right_edge r) = Some (Inr rt)"
      and cmds: "cmds = t @ b @ l @ rt @ corner_patch r # (if rect_fill r then [interior_fill r] else [])"
      unfolding Rect_display_Inr by blast
    have "Rect_display (change_fill r) =
        Some (Inr (t @ b @ l @ rt @ corner_patch r # (if \<not> rect_fill r then [interior_fill r] else [])))"
      unfolding Rect_display_Inr frame same using e by simp
    then show ?thesis
      using cmds by (simp add: butlast_append)
  qed
  then show ?thesis using frame by blast
qed

theorem change_fill_frame_witness:
  "\<exists>r. Rect_init window1 \<lparr>coord_x = 0, coord_y = 0\<rparr> (PyInt 10) (PyInt 10) black (PyInt 1)
          False False blue = Inr r
       \<and> rect_fill r = False \<and> rect_fill (change_fill r) = True
       \<and> Rect_display r =
           Some (Inr [fill_rect 1 0 0 10 1 0, fill_rect 1 0 10 10 1 0, fill_rect 1 0 0 1 10 0,
                      fill_rect 1 10 0 1 10 0, fill_rect 1 10 10 1 1 0])
       \<and> Rect_display (change_fill r) =
           Some (Inr [fill_rect 1 0 0 10 1 0, fill_rect 1 0 10 10 1 0, fill_rect 1 0 0 1 10 0,
                      fill_rect 1 10 0 1 10 0, fill_rect 1 10 10 1 1 0,
                      fill_rect 1 1 1 9 9 16711680])
       \<and> Rect_display (change_fill (change_fill r)) = Rect_display r"
proof -
  let ?o = "\<lparr>coord_x = 0, coord_y = 0\<rparr>"
  obtain r where r: "Rect_init window1 ?o (PyInt 10) (PyInt 10) black (PyInt 1) False False blue
      = Inr r"
    using Rect_init_valid[of 10 10 1 ?o window1 black False False blue] by auto
  have d: "Rect_display r =
           Some (Inr [fill_rect 1 0 0 10 1 0, fill_rect 1 0 10 10 1 0, fill_rect 1 0 0 1 10 0,
                      fill_rect 1 10 0 1 10 0, fill_rect 1 10 10 1 1 0])"
    and i: "interior_fill r = fill_rect 1 1 1 9 9 16711680" and f: "rect_fill r = False"
    by (rule Rect_init_edges[OF r];
        simp add: Rect_display_def then_display_def window1_def black_def blue_def)+
  have f': "rect_fill (change_fill r) = True"
    using change_fill_frame[of r] f by simp
  have d': "Rect_display (change_fill r) =
           Some (Inr [fill_rect 1 0 0 10 1 0, fill_rect 1 0 10 10 1 0, fill_rect 1 0 0 1 10 0,
                      fill_rect 1 10 0 1 10 0, fill_rect 1 10 10 1 1 0,
                      fill_rect 1 1 1 9 9 16711680])"
    using change_fill_frame[of r] d i f by simp
  have "Rect_display (change_fill (change_fill r)) = Rect_display r"
    using change_fill_frame[of "change_fill r"] d d' f' by simp
  then show ?thesis using r f f' d d' by blast
qed

end
